theory Spec2Isabelle
  imports Main
begin

section \<open>JavaScript values\<close>

text \<open>
  The values that flow through \<^verbatim>\<open>lib/utils.js\<close>: parsed JSON bodies, header values,
  the fields of a request body. \<open>Obj\<close> lists an object's own properties in the order
  \<^verbatim>\<open>Object.keys\<close> enumerates them; \<open>File\<close> stands for an object that is not JSON data
  (a Buffer, a Blob, a stream) and is named only to tell two of them apart.
\<close>

datatype jsval =
    Undefined
  | Null
  | Bool bool
  | Num int
  | Str string
  | Arr "jsval list"
  | Obj "(string \<times> jsval) list"
  | File string

text \<open>\<^verbatim>\<open>if (v)\<close>, \<^verbatim>\<open>v || d\<close>: JavaScript's truthiness.\<close>

fun truthy :: "jsval \<Rightarrow> bool" where
  "truthy Undefined = False"
| "truthy Null = False"
| "truthy (Bool b) = b"
| "truthy (Num n) = (n \<noteq> 0)"
| "truthy (Str s) = (s \<noteq> [])"
| "truthy (Arr xs) = True"
| "truthy (Obj kvs) = True"
| "truthy (File f) = True"

text \<open>\<^verbatim>\<open>"string" === typeof v\<close>\<close>

fun typeof_string :: "jsval \<Rightarrow> bool" where
  "typeof_string (Str s) = True"
| "typeof_string v = False"

text \<open>\<^verbatim>\<open>Array.isArray(v)\<close>\<close>

fun isArray :: "jsval \<Rightarrow> bool" where
  "isArray (Arr xs) = True"
| "isArray v = False"

text \<open>
  \<^verbatim>\<open>o[key]\<close>: the property's value, or \<^verbatim>\<open>undefined\<close> when the object has no
  such property; \<open>lookup\<close> on an object given as a map, \<open>get\<close> on one given by its
  property list.
\<close>

definition lookup :: "(string \<rightharpoonup> jsval) \<Rightarrow> string \<Rightarrow> jsval" where
  "lookup m key = (case m key of None \<Rightarrow> Undefined | Some v \<Rightarrow> v)"

definition get :: "(string \<times> jsval) list \<Rightarrow> string \<Rightarrow> jsval" where
  "get kvs key = lookup (map_of kvs) key"

section \<open>Responses, requests and thrown errors\<close>

text \<open>
  A response body is a stream; the code only ever calls \<^verbatim>\<open>json()\<close> on it. The stream is
  modelled by what that call does: it resolves to the parsed value, or it rejects with an
  error of the given name and message (a body that is not valid JSON).
\<close>

datatype stream = Resolves jsval | Rejects string string

text \<open>
  \<open>createResponseHandler\<close> reads \<^verbatim>\<open>statusCode\<close> and \<^verbatim>\<open>headers\<close> of its
  \<^verbatim>\<open>response\<close> argument; \<open>makeRequest\<close> reads \<^verbatim>\<open>body\<close> as well. Header values are
  JavaScript values: the handler tests their type.
\<close>

record response_head =
  statusCode :: jsval
  headers :: "string \<rightharpoonup> jsval"

record response = response_head +
  body :: "stream option"

text \<open>
  What a \<^verbatim>\<open>catch\<close> receives: an error object with its name and message, and the
  \<^verbatim>\<open>response\<close> and \<^verbatim>\<open>request\<close> properties that the \<^verbatim>\<open>catch\<close> block of
  \<open>makeRequest\<close> looks for (\<open>None\<close> when the error has no such property).
\<close>

record exn =
  err_name :: string
  err_message :: string
  err_response :: "response option"
  err_request :: "response option"

definition plain_error :: "string \<Rightarrow> string \<Rightarrow> exn" where
  "plain_error n m =
     \<lparr>err_name = n, err_message = m, err_response = None, err_request = None\<rparr>"

text \<open>\<^verbatim>\<open>new Error(message)\<close>\<close>

definition Error_new :: "string \<Rightarrow> exn" where
  "Error_new m = plain_error ''Error'' m"

text \<open>
  The request that \<open>makeRequest\<close> builds, lines 136-172. Its body is the text that
  \<^verbatim>\<open>JSON.stringify\<close> returns for a value, or a \<^verbatim>\<open>FormData\<close> object, given by the
  sequence of its \<^verbatim>\<open>append(key, value)\<close> calls.
\<close>

datatype payload = JSON_stringify jsval | FormData "(string \<times> jsval) list"

record options =
  req_method :: string
  req_headers :: "string \<rightharpoonup> string"
  query :: "(string \<times> string) list"
  req_body :: "payload option"

record req = options +
  url :: string
  path :: string

section \<open>FreshdeskError, lines 39-54\<close>

record FreshdeskError =
  e_name :: string
  e_message :: jsval
  e_data :: jsval
  e_status :: jsval
  e_apiTarget :: string
  e_requestId :: jsval

definition default_message :: string where
  "default_message = ''Error in Freshdesk's client API''"

text \<open>
  The constructor. \<^verbatim>\<open>message || "Error in Freshdesk's client API"\<close> keeps a truthy
  message and replaces any other; the stack trace is left out.
\<close>

definition FreshdeskError_new ::
  "jsval \<Rightarrow> jsval \<Rightarrow> 'a response_head_scheme \<Rightarrow> 'b req_scheme \<Rightarrow> FreshdeskError" where
  "FreshdeskError_new message data res rq =
     \<lparr>e_name = ''FreshdeskError'',
      e_message = (if truthy message then message else Str default_message),
      e_data = data,
      e_status = statusCode res,
      e_apiTarget = req_method rq @ '' '' @ path rq,
      e_requestId = lookup (headers res) ''x-request-id''\<rparr>"

section \<open>createResponseHandler, lines 56-131\<close>

text \<open>The \<^verbatim>\<open>extra\<close> object of lines 63-90; \<open>headersLink\<close> is its \<^verbatim>\<open>_headersLink\<close>.\<close>

record extra =
  pageIsLast :: bool
  requestId :: string
  headersLink :: "string option"

text \<open>
  What the callback is called with: \<^verbatim>\<open>cb(null, body, extra)\<close> or \<^verbatim>\<open>cb(error)\<close>, the
  error being a \<open>FreshdeskError\<close> or any other error object.
\<close>

datatype failure = Generic exn | Protocol FreshdeskError

datatype outcome = Success jsval extra | Failure failure

text \<open>
  \<^verbatim>\<open>body.description\<close>: a \<^verbatim>\<open>TypeError\<close> on \<^verbatim>\<open>null\<close> and \<^verbatim>\<open>undefined\<close>, the
  property of an object, and \<^verbatim>\<open>undefined\<close> on every other value.
\<close>

fun description :: "jsval \<Rightarrow> exn + jsval" where
  "description Null =
     Inl (plain_error ''TypeError'' ''Cannot read properties of null (reading 'description')'')"
| "description Undefined =
     Inl (plain_error ''TypeError'' ''Cannot read properties of undefined (reading 'description')'')"
| "description (Obj kvs) = Inr (get kvs ''description'')"
| "description v = Inr Undefined"

text \<open>Lines 63-90. Every response of this model has a \<^verbatim>\<open>headers\<close> object.\<close>

definition make_extra :: "'a response_head_scheme \<Rightarrow> extra" where
  "make_extra response =
     (let extra0 = \<lparr>pageIsLast = True, requestId = [], headersLink = None\<rparr>;
          extra1 = (case lookup (headers response) ''link'' of
                      Str l \<Rightarrow> extra0\<lparr>pageIsLast := False, headersLink := Some l\<rparr>
                    | _ \<Rightarrow> extra0)
      in case lookup (headers response) ''x-request-id'' of
           Str i \<Rightarrow> extra1\<lparr>requestId := i\<rparr>
         | _ \<Rightarrow> extra1)"

text \<open>
  The handler, applied to its four arguments. The callback is taken to return normally, so
  a run either calls it once (\<open>Inr\<close>, with what it was called with) or throws before
  calling it (\<open>Inl\<close>).
\<close>

definition createResponseHandler ::
  "exn option \<Rightarrow> 'a response_head_scheme \<Rightarrow> jsval \<Rightarrow> 'b req_scheme \<Rightarrow> exn + outcome" where
  "createResponseHandler error response body' request =
     (case error of
        Some e \<Rightarrow> Inr (Failure (Generic e))
      | None \<Rightarrow>
          let extra = make_extra response in
          if statusCode response = Num 200 \<or> statusCode response = Num 201 then
            Inr (Success body' extra)
          else if statusCode response = Num 204 then
            Inr (Success Null extra)
          else if statusCode response = Num 404 then
            Inr (Failure (Protocol (FreshdeskError_new
                   (Str ''The requested entity was not found'') body' response request)))
          else
            (case description body' of
               Inl e \<Rightarrow> Inl e
             | Inr d \<Rightarrow>
                 Inr (Failure (Protocol (FreshdeskError_new d body' response request)))))"

section \<open>makeRequest, lines 134-205\<close>

text \<open>
  The inner loop of lines 152-154 appends every element of an array under the key suffixed
  with \<^verbatim>\<open>[]\<close>; the outer loop of lines 149-158 runs over \<^verbatim>\<open>Object.keys(data)\<close> and
  reads \<^verbatim>\<open>data[key]\<close>.
\<close>

fun append_elements :: "string \<Rightarrow> jsval list \<Rightarrow> (string \<times> jsval) list \<Rightarrow> (string \<times> jsval) list" where
  "append_elements key [] form = form"
| "append_elements key (x # xs) form = append_elements key xs (form @ [(key @ ''[]'', x)])"

fun append_fields ::
  "(string \<times> jsval) list \<Rightarrow> string list \<Rightarrow> (string \<times> jsval) list \<Rightarrow> (string \<times> jsval) list" where
  "append_fields data [] form = form"
| "append_fields data (key # keys) form =
     (case get data key of
        Arr xs \<Rightarrow> append_fields data keys (append_elements key xs form)
      | v \<Rightarrow> append_fields data keys (form @ [(key, v)]))"

text \<open>
  The entries that one field of the request body contributes to the form, as the
  specification words it: an array-valued field gives one entry per element under the key
  suffixed with \<^verbatim>\<open>[]\<close>, any other field one entry under its own key.
\<close>

definition field_entries :: "string \<Rightarrow> jsval \<Rightarrow> (string \<times> jsval) list" where
  "field_entries k v = (case v of Arr xs \<Rightarrow> map (\<lambda>x. (k @ ''[]'', x)) xs | _ \<Rightarrow> [(k, v)])"

text \<open>
  What the code calls and the repository does not contain: the \<^verbatim>\<open>URL\<close> constructor (the
  \<^verbatim>\<open>pathname\<close> of the parsed URL, or the error the constructor throws) and undici's
  \<^verbatim>\<open>request\<close> (the response it resolves to, or the error it rejects with).
\<close>

record env =
  URL_pathname :: "string \<Rightarrow> exn + string"
  request :: "string \<Rightarrow> options \<Rightarrow> exn + response"

text \<open>Lines 136-165. A request body \<^verbatim>\<open>data\<close> is an object or is not given.\<close>

definition make_options ::
  "string \<Rightarrow> string \<Rightarrow> (string \<times> string) list \<Rightarrow> (string \<times> jsval) list option \<Rightarrow> options" where
  "make_options meth auth qs data =
     (let options =
            \<lparr>req_method = meth,
             req_headers = [''Content-Type'' \<mapsto> ''application/json'', ''Authorization'' \<mapsto> auth],
             query = qs,
             req_body = None\<rparr>
      in case data of
           None \<Rightarrow> options
         | Some d \<Rightarrow>
             if ''attachments'' \<in> set (map fst d) \<and> isArray (get d ''attachments'') then
               options\<lparr>req_headers := (req_headers options)(''Content-Type'' \<mapsto> ''multipart/form-data''),
                       req_body := Some (FormData (append_fields d (map fst d) []))\<rparr>
             else
               options\<lparr>req_body := Some (JSON_stringify (Obj d))\<rparr>)"

text \<open>Lines 167-172: \<^verbatim>\<open>{...options, url, path: fullUrl.pathname}\<close>\<close>

definition make_req :: "options \<Rightarrow> string \<Rightarrow> string \<Rightarrow> req" where
  "make_req options url' pathname =
     \<lparr>req_method = req_method options, req_headers = req_headers options,
      query = query options, req_body = req_body options,
      url = url', path = pathname\<rparr>"

text \<open>\<^verbatim>\<open>stream ? await stream.json() : null\<close>\<close>

fun read_json :: "stream option \<Rightarrow> exn + jsval" where
  "read_json None = Inr Null"
| "read_json (Some (Resolves v)) = Inr v"
| "read_json (Some (Rejects n m)) = Inl (plain_error n m)"

text \<open>
  The third call of the \<^verbatim>\<open>catch\<close> block passes \<^verbatim>\<open>req\<close> where the handler expects the
  response: an object with the request's headers and no \<^verbatim>\<open>statusCode\<close>.
\<close>

definition req_as_response :: "req \<Rightarrow> response_head" where
  "req_as_response rq =
     \<lparr>statusCode = Undefined, headers = (\<lambda>k. map_option Str (req_headers rq k))\<rparr>"

text \<open>The \<^verbatim>\<open>try\<close> block, lines 175-177.\<close>

definition try_block :: "env \<Rightarrow> string \<Rightarrow> options \<Rightarrow> req \<Rightarrow> exn + outcome" where
  "try_block env url' options rq =
     (case request env url' options of
        Inl e \<Rightarrow> Inl e
      | Inr response \<Rightarrow>
          (case read_json (body response) of
             Inl e \<Rightarrow> Inl e
           | Inr data \<Rightarrow> createResponseHandler None response data rq))"

text \<open>
  The \<^verbatim>\<open>catch\<close> block, lines 178-204. In its last branch \<^verbatim>\<open>request.body\<close> is a
  property of undici's \<^verbatim>\<open>request\<close> function: \<^verbatim>\<open>undefined\<close>.
\<close>

definition catch_block :: "exn \<Rightarrow> req \<Rightarrow> exn + outcome" where
  "catch_block error rq =
     (case err_response error of
        Some response \<Rightarrow>
          (case read_json (body response) of
             Inl e \<Rightarrow> Inl e
           | Inr data \<Rightarrow> createResponseHandler None response data rq)
      | None \<Rightarrow>
          (case err_request error of
             Some request' \<Rightarrow>
               (case read_json (body request') of
                  Inl e \<Rightarrow> Inl e
                | Inr data \<Rightarrow>
                    createResponseHandler (Some (Error_new (err_message error))) request' data rq)
           | None \<Rightarrow> createResponseHandler (Some error) (req_as_response rq) Undefined rq))"

text \<open>
  \<open>makeRequest\<close> is an async function: \<open>Inl e\<close> is its promise rejected with \<open>e\<close>, the
  callback never called; \<open>Inr out\<close> is the callback called once, with \<open>out\<close>.
\<close>

definition makeRequest ::
  "env \<Rightarrow> string \<Rightarrow> string \<Rightarrow> string \<Rightarrow> (string \<times> string) list \<Rightarrow> (string \<times> jsval) list option
     \<Rightarrow> exn + outcome" where
  "makeRequest env meth auth url' qs data =
     (let options = make_options meth auth qs data in
      case URL_pathname env url' of
        Inl e \<Rightarrow> Inl e
      | Inr pathname \<Rightarrow>
          let rq = make_req options url' pathname in
          (case try_block env url' options rq of
             Inr out \<Rightarrow> Inr out
           | Inl error \<Rightarrow> catch_block error rq))"

section \<open>Example inputs\<close>

definition example_url :: string where
  "example_url = ''https://acme.freshdesk.com/api/v2/contacts/7''"

definition example_req :: req where
  "example_req =
     \<lparr>req_method = ''PUT'',
      req_headers = [''Content-Type'' \<mapsto> ''application/json'', ''Authorization'' \<mapsto> ''Basic a2V5Olg=''],
      query = [],
      req_body = None,
      url = example_url,
      path = ''/api/v2/contacts/7''\<rparr>"

text \<open>A platform whose \<^verbatim>\<open>URL\<close> accepts one URL and whose transport ends in \<open>result\<close>.\<close>

definition example_env :: "exn + response \<Rightarrow> env" where
  "example_env result =
     \<lparr>URL_pathname =
        (\<lambda>u. if u = example_url
             then Inr ''/api/v2/contacts/7''
             else Inl (plain_error ''TypeError'' ''Invalid URL'')),
      request = (\<lambda>u opts. result)\<rparr>"

definition example_response :: "int \<Rightarrow> stream option \<Rightarrow> response" where
  "example_response code s = \<lparr>statusCode = Num code, headers = Map.empty, body = s\<rparr>"


definition example_data :: "(string \<times> jsval) list" where
  "example_data =
     [(''subject'', Str ''Printer''),
      (''tags'', Arr [Str ''urgent'', Str ''hw'']),
      (''attachments'', Arr [File ''file1''])]"

definition example_head :: "int \<Rightarrow> (string \<rightharpoonup> jsval) \<Rightarrow> response_head" where
  "example_head code hs = \<lparr>statusCode = Num code, headers = hs\<rparr>"

section \<open>Status classification\<close>

text \<open>
  C1. A response with status 200 or 201 is delivered to the callback as a success whose
  payload is the parsed body; a response with status 204 as a success whose payload is
  \<^verbatim>\<open>null\<close>. The metadata is the \<^verbatim>\<open>extra\<close> object in both cases.
\<close>

theorem success_statuses:
  "(statusCode r = Num 200 \<or> statusCode r = Num 201 \<longrightarrow>
      createResponseHandler None r b rq = Inr (Success b (make_extra r))) \<and>
   (statusCode r = Num 204 \<longrightarrow>
      createResponseHandler None r b rq = Inr (Success Null (make_extra r)))"
  by (simp add: createResponseHandler_def)

theorem success_statuses_witness:
  "createResponseHandler None (example_head 201 Map.empty) (Obj [(''id'', Num 1)]) example_req =
     Inr (Success (Obj [(''id'', Num 1)])
            \<lparr>pageIsLast = True, requestId = [], headersLink = None\<rparr>) \<and>
   createResponseHandler None (example_head 204 Map.empty) (Obj [(''id'', Num 1)]) example_req =
     Inr (Success Null \<lparr>pageIsLast = True, requestId = [], headersLink = None\<rparr>)"
  using success_statuses [of "example_head 201 Map.empty" "Obj [(''id'', Num 1)]" example_req]
    success_statuses [of "example_head 204 Map.empty" "Obj [(''id'', Num 1)]" example_req]
  by (simp add: example_head_def make_extra_def lookup_def)

text \<open>
  C3. A response with status 404 is delivered as a \<open>FreshdeskError\<close> with the fixed
  message "The requested entity was not found", whatever the body is. The error carries
  the body as it was passed, the status 404, the request's method and path, and the value
  of the \<^verbatim>\<open>x-request-id\<close> header.
\<close>

theorem not_found:
  "statusCode r = Num 404 \<Longrightarrow>
   createResponseHandler None r b rq =
     Inr (Failure (Protocol
       \<lparr>e_name = ''FreshdeskError'',
        e_message = Str ''The requested entity was not found'',
        e_data = b,
        e_status = Num 404,
        e_apiTarget = req_method rq @ '' '' @ path rq,
        e_requestId = lookup (headers r) ''x-request-id''\<rparr>))"
  by (simp add: createResponseHandler_def FreshdeskError_new_def)

theorem not_found_witness:
  "createResponseHandler None (example_head 404 [''x-request-id'' \<mapsto> Str ''abc123''])
       (Obj [(''description'', Str ''ignored'')]) example_req =
     Inr (Failure (Protocol
       \<lparr>e_name = ''FreshdeskError'',
        e_message = Str ''The requested entity was not found'',
        e_data = Obj [(''description'', Str ''ignored'')],
        e_status = Num 404,
        e_apiTarget = ''PUT /api/v2/contacts/7'',
        e_requestId = Str ''abc123''\<rparr>))"
  using not_found [of "example_head 404 [''x-request-id'' \<mapsto> Str ''abc123'']"
      "Obj [(''description'', Str ''ignored'')]" example_req]
  by (simp add: example_head_def example_req_def lookup_def)

lemma description_defined:
  "b \<noteq> Null \<Longrightarrow> b \<noteq> Undefined \<Longrightarrow>
   description b = Inr (case b of Obj kvs \<Rightarrow> get kvs ''description'' | _ \<Rightarrow> Undefined)"
  by (cases b) simp_all

text \<open>
  C2, as the code has it. A response whose status is none of 200, 201, 204 and 404 (every
  status outside 2xx but 404 is one, 409 included), with a parsed body that is neither
  \<^verbatim>\<open>null\<close> nor \<^verbatim>\<open>undefined\<close>, is delivered as a \<open>FreshdeskError\<close>. Its message is
  the body's \<^verbatim>\<open>description\<close> when that value is truthy, and the default message when it
  is missing, empty or otherwise falsy. No status other than 200, 201 and 204 yields a
  success.
\<close>

theorem other_statuses:
  "(statusCode r \<notin> {Num 200, Num 201, Num 204, Num 404} \<and> b \<noteq> Null \<and> b \<noteq> Undefined \<longrightarrow>
      createResponseHandler None r b rq =
        Inr (Failure (Protocol
          \<lparr>e_name = ''FreshdeskError'',
           e_message =
             (let d = (case b of Obj kvs \<Rightarrow> get kvs ''description'' | _ \<Rightarrow> Undefined)
              in if truthy d then d else Str ''Error in Freshdesk's client API''),
           e_data = b,
           e_status = statusCode r,
           e_apiTarget = req_method rq @ '' '' @ path rq,
           e_requestId = lookup (headers r) ''x-request-id''\<rparr>))) \<and>
   (statusCode r \<notin> {Num 200, Num 201, Num 204} \<longrightarrow>
      (\<forall>p ex. createResponseHandler None r b rq \<noteq> Inr (Success p ex)))"
  by (auto simp: createResponseHandler_def FreshdeskError_new_def default_message_def
      description_defined Let_def split: sum.splits)

theorem other_statuses_witness:
  "createResponseHandler None (example_head 409 Map.empty)
       (Obj [(''description'', Str ''Validation failed''), (''errors'', Arr [])]) example_req =
     Inr (Failure (Protocol
       \<lparr>e_name = ''FreshdeskError'',
        e_message = Str ''Validation failed'',
        e_data = Obj [(''description'', Str ''Validation failed''), (''errors'', Arr [])],
        e_status = Num 409,
        e_apiTarget = ''PUT /api/v2/contacts/7'',
        e_requestId = Undefined\<rparr>)) \<and>
   createResponseHandler None (example_head 202 Map.empty) (Obj []) example_req \<noteq>
     Inr (Success (Obj []) \<lparr>pageIsLast = True, requestId = [], headersLink = None\<rparr>)"
  using other_statuses [of "example_head 409 Map.empty"
      "Obj [(''description'', Str ''Validation failed''), (''errors'', Arr [])]" example_req]
    other_statuses [of "example_head 202 Map.empty" "Obj []" example_req]
  by (simp add: example_head_def example_req_def get_def lookup_def)

text \<open>
  C2 as the specification states it fails on a 409 response whose body is
  \<^verbatim>\<open>{description: ""}\<close>: the error's message is the default message, not the body's
  description. On a 500 response with a \<^verbatim>\<open>null\<close> body the handler throws a
  \<^verbatim>\<open>TypeError\<close> and builds no \<open>FreshdeskError\<close> at all.
\<close>

theorem other_statuses_counterexample:
  "createResponseHandler None (example_head 409 Map.empty) (Obj [(''description'', Str [])]) example_req =
     Inr (Failure (Protocol
       \<lparr>e_name = ''FreshdeskError'',
        e_message = Str ''Error in Freshdesk's client API'',
        e_data = Obj [(''description'', Str [])],
        e_status = Num 409,
        e_apiTarget = ''PUT /api/v2/contacts/7'',
        e_requestId = Undefined\<rparr>)) \<and>
   description (Obj [(''description'', Str [])]) = Inr (Str []) \<and>
   createResponseHandler None (example_head 500 Map.empty) Null example_req =
     Inl (plain_error ''TypeError'' ''Cannot read properties of null (reading 'description')'')"
  by (simp add: createResponseHandler_def FreshdeskError_new_def default_message_def
      example_head_def example_req_def get_def lookup_def)

section \<open>Metadata: pagination flag and request id\<close>

lemma typeof_string_iff: "typeof_string v \<longleftrightarrow> (\<exists>s. v = Str s)"
  by (cases v) simp_all

lemma pageIsLast_make_extra:
  "pageIsLast (make_extra r) = (\<not> typeof_string (lookup (headers r) ''link''))"
  by (simp add: make_extra_def Let_def split: jsval.splits)


lemma success_extra:
  "createResponseHandler None r b rq = Inr (Success p ex) \<Longrightarrow> ex = make_extra r"
  by (auto simp: createResponseHandler_def Let_def split: if_splits sum.splits)

text \<open>
  C5, as the code has it. In every success the flag \<^verbatim>\<open>pageIsLast\<close> is false exactly
  when the value of the response's \<^verbatim>\<open>link\<close> header is a string; it is true when the
  header is absent, and also when its value is not a string.
\<close>

theorem page_flag:
  "createResponseHandler None r b rq = Inr (Success p ex) \<Longrightarrow>
   (pageIsLast ex \<longleftrightarrow> \<not> (\<exists>l. headers r ''link'' = Some (Str l))) \<and>
   (headers r ''link'' = None \<longrightarrow> pageIsLast ex)"
  by (auto simp: pageIsLast_make_extra lookup_def typeof_string_iff dest!: success_extra
      split: option.splits)

theorem page_flag_witness:
  "createResponseHandler None (example_head 200 [''link'' \<mapsto> Str ''<page2>; rel=next''])
       (Arr []) example_req =
     Inr (Success (Arr [])
       \<lparr>pageIsLast = False, requestId = [], headersLink = Some ''<page2>; rel=next''\<rparr>) \<and>
   createResponseHandler None (example_head 200 Map.empty) (Arr []) example_req =
     Inr (Success (Arr []) \<lparr>pageIsLast = True, requestId = [], headersLink = None\<rparr>)"
  using page_flag [of "example_head 200 [''link'' \<mapsto> Str ''<page2>; rel=next'']" "Arr []"
      example_req "Arr []"
      "\<lparr>pageIsLast = False, requestId = [], headersLink = Some ''<page2>; rel=next''\<rparr>"]
    page_flag [of "example_head 200 Map.empty" "Arr []" example_req "Arr []"
      "\<lparr>pageIsLast = True, requestId = [], headersLink = None\<rparr>"]
  by (simp add: createResponseHandler_def make_extra_def lookup_def example_head_def)

text \<open>
  C5 as the specification states it fails on a response that carries two \<^verbatim>\<open>Link\<close>
  header lines, which the transport hands over as a list of two strings: the header is
  present and the flag stays true.
\<close>

theorem page_flag_counterexample:
  "createResponseHandler None
       (example_head 200 [''link'' \<mapsto> Arr [Str ''<page2>; rel=next'', Str ''<page9>; rel=last'']])
       (Arr []) example_req =
     Inr (Success (Arr []) \<lparr>pageIsLast = True, requestId = [], headersLink = None\<rparr>)"
  by (simp add: createResponseHandler_def make_extra_def lookup_def example_head_def)




section \<open>The default message\<close>

text \<open>
  C10. A \<open>FreshdeskError\<close> built with a missing or empty message has the message
  "Error in Freshdesk's client API"; its message is never \<^verbatim>\<open>undefined\<close> and never the
  empty string. An instance: the response of a status that takes the default branch, with
  a body that has no \<^verbatim>\<open>description\<close>.
\<close>

theorem default_message_fallback:
  "(m = Undefined \<or> m = Null \<or> m = Str [] \<longrightarrow>
      e_message (FreshdeskError_new m d res rq) = Str ''Error in Freshdesk's client API'') \<and>
   e_message (FreshdeskError_new m d res rq) \<noteq> Undefined \<and>
   e_message (FreshdeskError_new m d res rq) \<noteq> Str [] \<and>
   (statusCode r \<notin> {Num 200, Num 201, Num 204, Num 404} \<and> map_of kvs ''description'' = None \<longrightarrow>
      createResponseHandler None r (Obj kvs) rq' =
        Inr (Failure (Protocol (FreshdeskError_new Undefined (Obj kvs) r rq'))))"
  by (auto simp: createResponseHandler_def FreshdeskError_new_def default_message_def
      get_def lookup_def)

theorem default_message_fallback_witness:
  "e_message (FreshdeskError_new (Str []) Null (example_head 500 Map.empty) example_req) =
     Str ''Error in Freshdesk's client API'' \<and>
   createResponseHandler None (example_head 500 Map.empty) (Obj [(''code'', Num 7)]) example_req =
     Inr (Failure (Protocol
       \<lparr>e_name = ''FreshdeskError'',
        e_message = Str ''Error in Freshdesk's client API'',
        e_data = Obj [(''code'', Num 7)],
        e_status = Num 500,
        e_apiTarget = ''PUT /api/v2/contacts/7'',
        e_requestId = Undefined\<rparr>))"
  using default_message_fallback [of "Str []" Null "example_head 500 Map.empty" example_req
      "example_head 500 Map.empty" "[(''code'', Num 7)]" example_req]
  by (simp add: FreshdeskError_new_def default_message_def lookup_def example_head_def
      example_req_def)

section \<open>The request that is sent\<close>

lemma append_elements_eq:
  "append_elements key xs form = form @ map (\<lambda>x. (key @ ''[]'', x)) xs"
  by (induction xs arbitrary: form) simp_all

lemma append_fields_eq:
  "append_fields data keys form =
     form @ concat (map (\<lambda>k. field_entries k (get data k)) keys)"
proof (induction keys arbitrary: form)
  case Nil
  show ?case by simp
next
  case (Cons key keys)
  show ?case
    by (cases "get data key") (simp_all add: Cons.IH append_elements_eq field_entries_def)
qed

lemma get_own_property:
  assumes "distinct (map fst d)" and "(k, v) \<in> set d"
  shows "get d k = v"
  using assms by (simp add: get_def lookup_def)

lemma fields_of_object:
  assumes "distinct (map fst d)"
  shows "map (\<lambda>k. field_entries k (get d k)) (map fst d) = map (\<lambda>(k, v). field_entries k v) d"
  by (auto simp: get_own_property [OF assms])

lemma form_of_object:
  assumes "distinct (map fst d)"
  shows "append_fields d (map fst d) [] = concat (map (\<lambda>(k, v). field_entries k v) d)"
  unfolding append_fields_eq fields_of_object [OF assms] by simp

lemma has_attachments_list:
  "(''attachments'' \<in> set (map fst d) \<and> isArray (get d ''attachments'')) \<longleftrightarrow>
   (\<exists>xs. map_of d ''attachments'' = Some (Arr xs))"
proof (cases "map_of d ''attachments''")
  case None
  then have "''attachments'' \<notin> set (map fst d)"
    by (simp add: map_of_eq_None_iff)
  with None show ?thesis by simp
next
  case (Some v)
  then have "''attachments'' \<in> set (map fst d)"
    by (metis map_of_eq_None_iff option.distinct(1) set_map)
  with Some show ?thesis by (cases v) (simp_all add: get_def lookup_def)
qed

text \<open>
  C4. For a request body \<open>d\<close> (an object: every key once), the request carries the
  \<^verbatim>\<open>Authorization\<close> header. When \<open>d\<close> has a field \<^verbatim>\<open>attachments\<close> that is a list,
  the \<^verbatim>\<open>Content-Type\<close> is \<^verbatim>\<open>multipart/form-data\<close> and the body is the form that holds,
  field after field, the entries of every field of \<open>d\<close>. Otherwise the \<^verbatim>\<open>Content-Type\<close>
  is \<^verbatim>\<open>application/json\<close> and the body is \<^verbatim>\<open>JSON.stringify(d)\<close>.
\<close>

theorem request_encoding:
  assumes "distinct (map fst d)"
  shows "let options = make_options meth auth qs (Some d) in
           req_headers options ''Authorization'' = Some auth \<and>
           (if \<exists>xs. map_of d ''attachments'' = Some (Arr xs) then
              req_headers options ''Content-Type'' = Some ''multipart/form-data'' \<and>
              req_body options =
                Some (FormData (concat (map (\<lambda>(k, v). field_entries k v) d)))
            else
              req_headers options ''Content-Type'' = Some ''application/json'' \<and>
              req_body options = Some (JSON_stringify (Obj d)))"
proof (cases "\<exists>xs. map_of d ''attachments'' = Some (Arr xs)")
  case True
  then have "''attachments'' \<in> set (map fst d) \<and> isArray (get d ''attachments'')"
    using has_attachments_list [of d] by blast
  with True show ?thesis
    by (simp add: make_options_def Let_def form_of_object [OF assms])
next
  case False
  then have "\<not> (''attachments'' \<in> set (map fst d) \<and> isArray (get d ''attachments''))"
    using has_attachments_list [of d] by blast
  with False show ?thesis
    by (simp add: make_options_def Let_def)
qed

theorem request_encoding_witness:
  "req_headers (make_options ''POST'' ''Basic a2V5Olg='' [] (Some example_data)) ''Authorization'' =
     Some ''Basic a2V5Olg='' \<and>
   req_headers (make_options ''POST'' ''Basic a2V5Olg='' [] (Some example_data)) ''Content-Type'' =
     Some ''multipart/form-data'' \<and>
   req_body (make_options ''POST'' ''Basic a2V5Olg='' [] (Some example_data)) =
     Some (FormData
       [(''subject'', Str ''Printer''),
        (''tags[]'', Str ''urgent''),
        (''tags[]'', Str ''hw''),
        (''attachments[]'', File ''file1'')]) \<and>
   req_headers (make_options ''POST'' ''Basic a2V5Olg='' [] (Some [(''name'', Str ''Ann'')])) ''Content-Type'' =
     Some ''application/json'' \<and>
   req_body (make_options ''POST'' ''Basic a2V5Olg='' [] (Some [(''name'', Str ''Ann'')])) =
     Some (JSON_stringify (Obj [(''name'', Str ''Ann'')]))"
  using request_encoding [of example_data "''POST''" "''Basic a2V5Olg=''" "[]"]
    request_encoding [of "[(''name'', Str ''Ann'')]" "''POST''" "''Basic a2V5Olg=''" "[]"]
  by (simp add: example_data_def Let_def field_entries_def)

section \<open>From the transport to the callback\<close>

lemma handler_throws_plain:
  "createResponseHandler None r v rq = Inl e \<Longrightarrow> err_response e = None \<and> err_request e = None"
  by (cases v) (auto simp: createResponseHandler_def Let_def plain_error_def split: if_splits)

lemma read_json_throws_plain:
  "read_json s = Inl e \<Longrightarrow> err_response e = None \<and> err_request e = None"
  by (cases s rule: read_json.cases) (auto simp: plain_error_def)

lemma catch_block_plain:
  "err_response e = None \<Longrightarrow> err_request e = None \<Longrightarrow> catch_block e rq = Inr (Failure (Generic e))"
  by (simp add: catch_block_def createResponseHandler_def)

lemma makeRequest_returned:
  assumes "URL_pathname env u = Inr p"
    and "request env u (make_options meth auth qs d) = Inr r"
  shows "makeRequest env meth auth u qs d =
    (case read_json (body r) of
       Inl e \<Rightarrow> Inr (Failure (Generic e))
     | Inr v \<Rightarrow>
         (case createResponseHandler None r v (make_req (make_options meth auth qs d) u p) of
            Inl e \<Rightarrow> Inr (Failure (Generic e))
          | Inr out \<Rightarrow> Inr out))"
  using assms
  by (auto simp: makeRequest_def try_block_def Let_def catch_block_plain
      dest: handler_throws_plain read_json_throws_plain split: sum.splits)

lemma makeRequest_rejected:
  assumes "URL_pathname env u = Inr p"
    and "request env u (make_options meth auth qs d) = Inl e"
  shows "makeRequest env meth auth u qs d = catch_block e (make_req (make_options meth auth qs d) u p)"
  using assms by (simp add: makeRequest_def try_block_def Let_def)

lemma transport_failure_delivered:
  assumes "URL_pathname env u = Inr p"
    and "request env u (make_options meth auth qs d) = Inl e"
    and "err_response e = None"
  shows "(err_request e = None \<longrightarrow>
            makeRequest env meth auth u qs d = Inr (Failure (Generic e))) \<and>
         (err_request e = Some rq' \<and> read_json (body rq') = Inr v \<longrightarrow>
            makeRequest env meth auth u qs d = Inr (Failure (Generic (Error_new (err_message e)))))"
  using assms(3)
  by (simp add: makeRequest_rejected [OF assms(1,2)] catch_block_def createResponseHandler_def)

section \<open>Where the code misses what it attempts\<close>

text \<open>
  C7. Line 176 takes a missing body as \<^verbatim>\<open>null\<close>, and the 204 case of the handler
  expects such a response. The transport hands over a body stream for every response,
  though, and \<^verbatim>\<open>json()\<close> rejects on a body that is empty or not valid JSON. The
  rejection is caught at line 178 and passed to the callback as an error: a 204 response
  with an empty body, and a 200 response with a body that is not JSON, both end as an
  error and not as the success of their status code.
\<close>

theorem empty_body_not_tolerated:
  "makeRequest
       (example_env (Inr (example_response 204
          (Some (Rejects ''SyntaxError'' ''Unexpected end of JSON input'')))))
       ''DELETE'' ''Basic a2V5Olg='' example_url [] None =
     Inr (Failure (Generic (plain_error ''SyntaxError'' ''Unexpected end of JSON input''))) \<and>
   makeRequest
       (example_env (Inr (example_response 200
          (Some (Rejects ''SyntaxError'' ''Unexpected token < in JSON at position 0'')))))
       ''GET'' ''Basic a2V5Olg='' example_url [] None =
     Inr (Failure (Generic
       (plain_error ''SyntaxError'' ''Unexpected token < in JSON at position 0'')))"
  by (simp add: makeRequest_def try_block_def catch_block_def createResponseHandler_def
      plain_error_def example_env_def example_url_def example_response_def Let_def)


text \<open>
  C8. \<^verbatim>\<open>new URL(url)\<close>, line 167, stands before the \<^verbatim>\<open>try\<close> block. When the
  constructor throws, the promise of \<open>makeRequest\<close> rejects with its error and the
  callback is never called, whatever the platform and the request are; so it is for a URL
  without a scheme.
\<close>

theorem invalid_url_escapes:
  "makeRequest (env\<lparr>URL_pathname := (\<lambda>u. Inl e)\<rparr>) meth auth u qs d = Inl e \<and>
   makeRequest (example_env (Inr (example_response 200 (Some (Resolves (Obj []))))))
       ''PUT'' ''Basic a2V5Olg='' ''acme.freshdesk.com/api/v2/contacts/7'' [] None =
     Inl (plain_error ''TypeError'' ''Invalid URL'')"
  by (simp add: makeRequest_def example_env_def example_url_def Let_def)

end
